theory Spec2Isabelle
  imports Main "HOL-Library.AList"
begin

section \<open>The terminal plugin as an event-driven state machine\<close>

text \<open>
  The program is \<^verbatim>\<open>src/main.ts\<close>: the class \<^verbatim>\<open>ClaudeTerminalPlugin\<close> with its floating
  terminal, and the class \<^verbatim>\<open>ClaudeTerminalView\<close>, the terminal docked in a side panel.
  Both run on one cooperative event loop. Every method is a function from the state of
  the world to the state of the world; what the browser and the host application decide
  (when an animation frame runs, how time passes, whether the pseudo-terminal module
  loads and the spawn succeeds, the grid that fits a container) comes in with the events.

  Objects are handles (natural numbers from one counter). Calls into the terminal
  emulator and the process layer are recorded, with the time of the call, in a log.
  The drag and resize mechanics of the floating window, the settings panel's widgets and
  the forwarding of typed and printed data are not part of the model.
\<close>

type_synonym handle = nat

record ClaudeTerminalSettings =
  shellPath :: string
  autoLaunchClaude :: bool
  fontSize :: nat
  floatingWidth :: nat
  floatingHeight :: nat

text \<open>What the host gives: the vault's base path and the process environment.\<close>

record host_env =
  basePath :: string
  processEnv :: "(string \<times> string) list"

text \<open>
  The outcome of the three calls of \<^verbatim>\<open>startPty\<close> that can throw: \<^verbatim>\<open>require(nodePtyPath)\<close>,
  \<^verbatim>\<open>require("node-pty")\<close> and \<^verbatim>\<open>nodePty.spawn\<close>. \<open>None\<close> is a normal return, \<open>Some e\<close> an
  exception whose rendering as a string is \<open>e\<close>.
\<close>

record pty_env =
  requireLocal :: "string option"
  requireGlobal :: "string option"
  spawnThrows :: "string option"

record spawn_options =
  opt_name :: string
  opt_cols :: nat
  opt_rows :: nat
  opt_cwd :: string
  opt_env :: "(string \<times> string) list"

datatype owner = Floating | Docked nat

datatype effect =
    Spawn owner string "string list" spawn_options
  | Kill owner handle
  | PtyWrite owner handle string
  | PtyResize owner handle nat nat
  | TermWrite owner handle string
  | ConsoleError string string
  | Fit owner handle
  | ScrollToBottom owner handle
  | Focus owner handle
  | Dispose owner handle

text \<open>An xterm \<^verbatim>\<open>Terminal\<close>: its grid and the number of listeners registered with \<^verbatim>\<open>onResize\<close>.\<close>

record xterm =
  xt_id :: handle
  xt_fontSize :: nat
  xt_cols :: nat
  xt_rows :: nat
  xt_resizeListeners :: nat

text \<open>The floating \<^verbatim>\<open>div\<close>: the class \<^verbatim>\<open>is-hidden\<close> and what is mounted in its content area.\<close>

record container =
  is_hidden :: bool
  content :: "handle list"
  in_document :: bool

datatype timer_callback =
    FloatDebounce
  | FloatAutoLaunch
  | ViewInitialize nat
  | ViewDebounce nat
  | ViewAutoLaunch nat

datatype frame_callback =
    FloatFrameOuter
  | FloatFrameInner
  | ViewFrameOuter nat
  | ViewFrameInner nat

record timer =
  timer_id :: handle
  due :: nat
  timer_cb :: timer_callback

text \<open>The fields of a \<^verbatim>\<open>ClaudeTerminalView\<close>, and the grid that fits its container now.\<close>

record view =
  terminal :: "xterm option"
  fitAddon :: "handle option"
  ptyProcess :: "handle option"
  resizeObserver :: "handle option"
  fitDebounceTimer :: "handle option"
  viewBox :: "nat \<times> nat"

text \<open>
  The fields of \<^verbatim>\<open>ClaudeTerminalPlugin\<close>, then the host's side: the grid that fits the
  floating content area, every view object ever made (a view is named by its index),
  the workspace leaves that show one, the queue of animation-frame callbacks, the
  pending timers in the order they come due, the clock (milliseconds), the handle
  counter and the log.
\<close>

record world =
  host :: host_env
  settings :: ClaudeTerminalSettings
  floatingContainer :: "container option"
  floatingTerminal :: "xterm option"
  floatingFitAddon :: "handle option"
  floatingPtyProcess :: "handle option"
  floatingResizeObserver :: "handle option"
  isFloatingVisible :: bool
  floatingFitDebounceTimer :: "handle option"
  floatBox :: "nat \<times> nat"
  views :: "view list"
  leaves :: "(nat \<times> nat) list"
  frames :: "frame_callback list"
  timers :: "timer list"
  now :: nat
  nextId :: handle
  log :: "(nat \<times> effect) list"

subsection \<open>The runtime: log, timers, animation frames\<close>

definition emit :: "effect list \<Rightarrow> world \<Rightarrow> world" where
  "emit es s = s\<lparr>log := log s @ map (Pair (now s)) es\<rparr>"

text \<open>A timer goes behind every pending timer that is due no later than it.\<close>

fun insertTimer :: "timer \<Rightarrow> timer list \<Rightarrow> timer list" where
  "insertTimer t [] = [t]"
| "insertTimer t (u # us) = (if due t < due u then t # u # us else u # insertTimer t us)"

definition setTimeout :: "timer_callback \<Rightarrow> nat \<Rightarrow> world \<Rightarrow> handle \<times> world" where
  "setTimeout cb d s =
     (nextId s,
      s\<lparr>timers := insertTimer \<lparr>timer_id = nextId s, due = now s + d, timer_cb = cb\<rparr> (timers s),
        nextId := Suc (nextId s)\<rparr>)"

definition clearTimeout :: "handle \<Rightarrow> world \<Rightarrow> world" where
  "clearTimeout i s = s\<lparr>timers := filter (\<lambda>t. timer_id t \<noteq> i) (timers s)\<rparr>"

definition requestAnimationFrame :: "frame_callback \<Rightarrow> world \<Rightarrow> world" where
  "requestAnimationFrame cb s = s\<lparr>frames := frames s @ [cb]\<rparr>"

subsection \<open>Strings written by the program\<close>

definition CR :: char where "CR = CHR 0x0D"
definition LF :: char where "LF = CHR 0x0A"
definition ESC :: char where "ESC = CHR 0x1B"

definition errorLine :: string where
  "errorLine = [CR, LF, ESC] @ ''[31mError: Failed to start terminal.'' @ [ESC] @ ''[0m'' @ [CR, LF]"

definition rawErrorLine :: "string \<Rightarrow> string" where
  "rawErrorLine e = [CR, LF] @ e @ [CR, LF]"

definition launchCommand :: string where
  "launchCommand = ''clear && claude'' @ [CR]"

definition clearCommand :: string where
  "clearCommand = ''clear'' @ [CR]"

subsection \<open>The terminal emulator\<close>

text \<open>
  \<^verbatim>\<open>new Terminal({fontSize, ..., cols: 80, rows: 24})\<close>, and \<^verbatim>\<open>FitAddon.fit()\<close>: the grid
  becomes the one that fits the container; when it changes, every \<^verbatim>\<open>onResize\<close> listener
  runs, and each of them is \<^verbatim>\<open>ptyProcess?.resize(cols, rows)\<close> on the process handle of
  the moment.
\<close>

definition newTerminal :: "handle \<Rightarrow> nat \<Rightarrow> xterm" where
  "newTerminal i fs = \<lparr>xt_id = i, xt_fontSize = fs, xt_cols = 80, xt_rows = 24, xt_resizeListeners = 0\<rparr>"

definition fit :: "owner \<Rightarrow> nat \<times> nat \<Rightarrow> handle option \<Rightarrow> xterm \<Rightarrow> xterm \<times> effect list" where
  "fit ow box pty t =
     (if xt_cols t = fst box \<and> xt_rows t = snd box then (t, [Fit ow (xt_id t)])
      else (t\<lparr>xt_cols := fst box, xt_rows := snd box\<rparr>,
            Fit ow (xt_id t) #
            (case pty of None \<Rightarrow> []
             | Some p \<Rightarrow> replicate (xt_resizeListeners t) (PtyResize ow p (fst box) (snd box)))))"

definition spawnOptions :: "host_env \<Rightarrow> xterm \<Rightarrow> spawn_options" where
  "spawnOptions h t =
     \<lparr>opt_name = ''xterm-256color'', opt_cols = xt_cols t, opt_rows = xt_rows t,
      opt_cwd = basePath h,
      opt_env = AList.update ''COLORTERM'' ''truecolor''
                  (AList.update ''TERM'' ''xterm-256color'' (processEnv h))\<rparr>"

text \<open>
  The inner \<^verbatim>\<open>try { require(nodePtyPath) } catch { require("node-pty") }\<close>: the result is
  the exception that leaves it, if any.
\<close>

definition loadNodePty :: "pty_env \<Rightarrow> string option" where
  "loadNodePty env = (case requireLocal env of None \<Rightarrow> None | Some e \<Rightarrow> requireGlobal env)"

subsection \<open>The floating terminal (class ClaudeTerminalPlugin)\<close>

definition createFloatingContainer :: "world \<Rightarrow> world" where
  "createFloatingContainer s =
     s\<lparr>floatingContainer := Some \<lparr>is_hidden = True, content = [], in_document = True\<rparr>\<rparr>"

definition floatingFit :: "world \<Rightarrow> world" where
  "floatingFit s =
     (case floatingTerminal s of None \<Rightarrow> s
      | Some t \<Rightarrow>
          (let (t', es) = fit Floating (floatBox s) (floatingPtyProcess s) t
           in emit es (s\<lparr>floatingTerminal := Some t'\<rparr>)))"

definition floatingScrollToBottom :: "world \<Rightarrow> world" where
  "floatingScrollToBottom s =
     (case floatingTerminal s of None \<Rightarrow> s | Some t \<Rightarrow> emit [ScrollToBottom Floating (xt_id t)] s)"

definition floatingFocus :: "world \<Rightarrow> world" where
  "floatingFocus s =
     (case floatingTerminal s of None \<Rightarrow> s | Some t \<Rightarrow> emit [Focus Floating (xt_id t)] s)"

text \<open>The \<^verbatim>\<open>catch\<close> block of \<^verbatim>\<open>startFloatingPty\<close> (lines 557 to 560).\<close>

definition floatingCatch :: "string \<Rightarrow> world \<Rightarrow> world" where
  "floatingCatch e s =
     (let s1 = emit [ConsoleError ''Claude Terminal: Failed to start PTY'' e] s
      in case floatingTerminal s1 of None \<Rightarrow> s1
         | Some t \<Rightarrow> emit [TermWrite Floating (xt_id t) errorLine] s1)"

text \<open>\<^verbatim>\<open>startFloatingPty\<close> (lines 512 to 561).\<close>

definition startFloatingPty :: "pty_env \<Rightarrow> world \<Rightarrow> world" where
  "startFloatingPty env s =
     (case floatingTerminal s of None \<Rightarrow> s
      | Some t \<Rightarrow>
          (case loadNodePty env of Some e \<Rightarrow> floatingCatch e s
           | None \<Rightarrow>
               (let s1 = emit [Spawn Floating (shellPath (settings s)) [] (spawnOptions (host s) t)] s
                in case spawnThrows env of Some e \<Rightarrow> floatingCatch e s1
                   | None \<Rightarrow>
                       (let s2 = s1\<lparr>floatingPtyProcess := Some (nextId s1),
                                    floatingTerminal :=
                                      Some (t\<lparr>xt_resizeListeners := Suc (xt_resizeListeners t)\<rparr>),
                                    nextId := Suc (nextId s1)\<rparr>
                        in if autoLaunchClaude (settings s2)
                           then snd (setTimeout FloatAutoLaunch 300 s2) else s2))))"

text \<open>The callback given to \<^verbatim>\<open>new ResizeObserver\<close> (lines 494 to 502) and its timer's callback.\<close>

definition floatingResizeCallback :: "world \<Rightarrow> world" where
  "floatingResizeCallback s =
     (let s1 = (case floatingFitDebounceTimer s of None \<Rightarrow> s | Some i \<Rightarrow> clearTimeout i s);
          (i, s2) = setTimeout FloatDebounce 50 s1
      in s2\<lparr>floatingFitDebounceTimer := Some i\<rparr>)"

definition floatingDebounceFired :: "world \<Rightarrow> world" where
  "floatingDebounceFired s =
     (if floatingFitAddon s \<noteq> None \<and> floatingTerminal s \<noteq> None \<and> floatingPtyProcess s \<noteq> None
      then floatingScrollToBottom (floatingFit s) else s)"

definition floatingAutoLaunchFired :: "world \<Rightarrow> world" where
  "floatingAutoLaunchFired s =
     (case floatingPtyProcess s of None \<Rightarrow> s
      | Some p \<Rightarrow> emit [PtyWrite Floating p launchCommand] s)"

text \<open>
  \<^verbatim>\<open>initializeFloatingTerminal\<close> (lines 457 to 504). The content element exists exactly
  when the container does.
\<close>

definition initializeFloatingTerminal :: "world \<Rightarrow> world" where
  "initializeFloatingTerminal s =
     (case floatingContainer s of None \<Rightarrow> s
      | Some c \<Rightarrow>
          requestAnimationFrame FloatFrameOuter
            (s\<lparr>floatingTerminal := Some (newTerminal (nextId s) (fontSize (settings s))),
               floatingFitAddon := Some (nextId s + 1),
               floatingContainer := Some (c\<lparr>content := content c @ [nextId s]\<rparr>),
               floatingResizeObserver := Some (nextId s + 2),
               nextId := nextId s + 3\<rparr>))"

definition floatingFrameInner :: "pty_env \<Rightarrow> world \<Rightarrow> world" where
  "floatingFrameInner env s =
     (if floatingFitAddon s \<noteq> None \<and> floatingTerminal s \<noteq> None
      then floatingFocus (startFloatingPty env (floatingFit s)) else s)"

text \<open>\<^verbatim>\<open>destroyFloatingTerminal\<close> (lines 563 to 583).\<close>

definition destroyFloatingTerminal :: "world \<Rightarrow> world" where
  "destroyFloatingTerminal s =
     (let s1 = s\<lparr>floatingResizeObserver := None\<rparr>;
          s2 = (case floatingPtyProcess s1 of None \<Rightarrow> s1
                | Some p \<Rightarrow> (emit [Kill Floating p] s1)\<lparr>floatingPtyProcess := None\<rparr>);
          s3 = (case floatingTerminal s2 of None \<Rightarrow> s2
                | Some t \<Rightarrow> (emit [Dispose Floating (xt_id t)] s2)\<lparr>floatingTerminal := None\<rparr>);
          s4 = s3\<lparr>floatingFitAddon := None\<rparr>
      in case floatingContainer s4 of None \<Rightarrow> s4
         | Some c \<Rightarrow> s4\<lparr>floatingContainer := Some (c\<lparr>content := []\<rparr>)\<rparr>)"

text \<open>\<^verbatim>\<open>showFloatingTerminal\<close>, \<^verbatim>\<open>hideFloatingTerminal\<close>, \<^verbatim>\<open>toggleFloatingTerminal\<close> (lines 585 to 612).\<close>

definition showFloatingTerminal :: "world \<Rightarrow> world" where
  "showFloatingTerminal s =
     (case floatingContainer s of None \<Rightarrow> s
      | Some c \<Rightarrow>
          (let s1 = s\<lparr>floatingContainer := Some (c\<lparr>is_hidden := False\<rparr>), isFloatingVisible := True\<rparr>
           in case floatingTerminal s1 of None \<Rightarrow> initializeFloatingTerminal s1
              | Some t \<Rightarrow>
                  floatingFocus (floatingScrollToBottom
                    (case floatingFitAddon s1 of None \<Rightarrow> s1 | Some a \<Rightarrow> floatingFit s1))))"

definition hideFloatingTerminal :: "world \<Rightarrow> world" where
  "hideFloatingTerminal s =
     (case floatingContainer s of None \<Rightarrow> s
      | Some c \<Rightarrow> s\<lparr>floatingContainer := Some (c\<lparr>is_hidden := True\<rparr>), isFloatingVisible := False\<rparr>)"

definition toggleFloatingTerminal :: "world \<Rightarrow> world" where
  "toggleFloatingTerminal s =
     (if isFloatingVisible s then hideFloatingTerminal s else showFloatingTerminal s)"

text \<open>The click handlers of the close button (lines 360 to 363) and of the clear button (line 342).\<close>

definition closeButtonClicked :: "world \<Rightarrow> world" where
  "closeButtonClicked s = destroyFloatingTerminal (hideFloatingTerminal s)"

definition clearButtonClicked :: "world \<Rightarrow> world" where
  "clearButtonClicked s =
     (case floatingPtyProcess s of None \<Rightarrow> s
      | Some p \<Rightarrow> emit [PtyWrite Floating p clearCommand] s)"

subsection \<open>The docked terminal (class ClaudeTerminalView)\<close>

text \<open>
  A method of the view with index \<open>v\<close> reads and writes \<open>views s ! v\<close>. An index that names
  no view cannot occur in the program (\<^verbatim>\<open>this\<close> is always an object); the model leaves
  the world as it is there.
\<close>

definition view_of :: "world \<Rightarrow> nat \<Rightarrow> view option" where
  "view_of s v = (if v < length (views s) then Some (views s ! v) else None)"

definition set_view :: "nat \<Rightarrow> view \<Rightarrow> world \<Rightarrow> world" where
  "set_view v w s = s\<lparr>views := (views s)[v := w]\<rparr>"

definition newView :: view where
  "newView = \<lparr>terminal = None, fitAddon = None, ptyProcess = None, resizeObserver = None,
              fitDebounceTimer = None, viewBox = (80, 24)\<rparr>"

definition viewFit :: "nat \<Rightarrow> world \<Rightarrow> world" where
  "viewFit v s =
     (case view_of s v of None \<Rightarrow> s
      | Some w \<Rightarrow>
          (case terminal w of None \<Rightarrow> s
           | Some t \<Rightarrow>
               (let (t', es) = fit (Docked v) (viewBox w) (ptyProcess w) t
                in emit es (set_view v (w\<lparr>terminal := Some t'\<rparr>) s))))"

definition viewScrollToBottom :: "nat \<Rightarrow> world \<Rightarrow> world" where
  "viewScrollToBottom v s =
     (case view_of s v of None \<Rightarrow> s
      | Some w \<Rightarrow>
          (case terminal w of None \<Rightarrow> s | Some t \<Rightarrow> emit [ScrollToBottom (Docked v) (xt_id t)] s))"

definition viewFocus :: "nat \<Rightarrow> world \<Rightarrow> world" where
  "viewFocus v s =
     (case view_of s v of None \<Rightarrow> s
      | Some w \<Rightarrow>
          (case terminal w of None \<Rightarrow> s | Some t \<Rightarrow> emit [Focus (Docked v) (xt_id t)] s))"

text \<open>The \<^verbatim>\<open>catch\<close> block of \<^verbatim>\<open>startPty\<close> (lines 199 to 203).\<close>

definition viewCatch :: "nat \<Rightarrow> string \<Rightarrow> world \<Rightarrow> world" where
  "viewCatch v e s =
     (let s1 = emit [ConsoleError ''Claude Terminal: Failed to start PTY'' e] s
      in case view_of s1 v of None \<Rightarrow> s1
         | Some w \<Rightarrow>
             (case terminal w of None \<Rightarrow> s1
              | Some t \<Rightarrow>
                  emit [TermWrite (Docked v) (xt_id t) errorLine,
                        TermWrite (Docked v) (xt_id t) (rawErrorLine e)] s1))"

text \<open>\<^verbatim>\<open>startPty\<close> (lines 154 to 204).\<close>

definition startPty :: "nat \<Rightarrow> pty_env \<Rightarrow> world \<Rightarrow> world" where
  "startPty v env s =
     (case view_of s v of None \<Rightarrow> s
      | Some w \<Rightarrow>
          (case terminal w of None \<Rightarrow> s
           | Some t \<Rightarrow>
               (case loadNodePty env of Some e \<Rightarrow> viewCatch v e s
                | None \<Rightarrow>
                    (let s1 = emit [Spawn (Docked v) (shellPath (settings s)) []
                                     (spawnOptions (host s) t)] s
                     in case spawnThrows env of Some e \<Rightarrow> viewCatch v e s1
                        | None \<Rightarrow>
                            (let s2 = (set_view v
                                        (w\<lparr>ptyProcess := Some (nextId s1),
                                           terminal :=
                                             Some (t\<lparr>xt_resizeListeners := Suc (xt_resizeListeners t)\<rparr>)\<rparr>)
                                        s1)\<lparr>nextId := Suc (nextId s1)\<rparr>
                             in if autoLaunchClaude (settings s2)
                                then snd (setTimeout (ViewAutoLaunch v) 300 s2) else s2)))))"

text \<open>The callback given to \<^verbatim>\<open>new ResizeObserver\<close> (lines 136 to 144) and its timer's callback.\<close>

definition viewResizeCallback :: "nat \<Rightarrow> world \<Rightarrow> world" where
  "viewResizeCallback v s =
     (case view_of s v of None \<Rightarrow> s
      | Some w \<Rightarrow>
          (let s1 = (case fitDebounceTimer w of None \<Rightarrow> s | Some i \<Rightarrow> clearTimeout i s);
               (i, s2) = setTimeout (ViewDebounce v) 50 s1
           in set_view v (w\<lparr>fitDebounceTimer := Some i\<rparr>) s2))"

definition viewDebounceFired :: "nat \<Rightarrow> world \<Rightarrow> world" where
  "viewDebounceFired v s =
     (case view_of s v of None \<Rightarrow> s
      | Some w \<Rightarrow>
          (if fitAddon w \<noteq> None \<and> terminal w \<noteq> None \<and> ptyProcess w \<noteq> None
           then viewScrollToBottom v (viewFit v s) else s))"

definition viewAutoLaunchFired :: "nat \<Rightarrow> world \<Rightarrow> world" where
  "viewAutoLaunchFired v s =
     (case view_of s v of None \<Rightarrow> s
      | Some w \<Rightarrow>
          (case ptyProcess w of None \<Rightarrow> s
           | Some p \<Rightarrow> emit [PtyWrite (Docked v) p launchCommand] s))"

text \<open>\<^verbatim>\<open>initializeTerminal\<close> (lines 99 to 146).\<close>

definition initializeTerminal :: "nat \<Rightarrow> world \<Rightarrow> world" where
  "initializeTerminal v s =
     (case view_of s v of None \<Rightarrow> s
      | Some w \<Rightarrow>
          requestAnimationFrame (ViewFrameOuter v)
            ((set_view v
               (w\<lparr>terminal := Some (newTerminal (nextId s) (fontSize (settings s))),
                  fitAddon := Some (nextId s + 1),
                  resizeObserver := Some (nextId s + 2)\<rparr>) s)\<lparr>nextId := nextId s + 3\<rparr>))"

definition viewFrameInner :: "nat \<Rightarrow> pty_env \<Rightarrow> world \<Rightarrow> world" where
  "viewFrameInner v env s =
     (case view_of s v of None \<Rightarrow> s
      | Some w \<Rightarrow>
          (if fitAddon w \<noteq> None \<and> terminal w \<noteq> None
           then viewFocus v (startPty v env (viewFit v s)) else s))"

text \<open>\<^verbatim>\<open>destroyTerminal\<close> (lines 206 to 221).\<close>

definition destroyTerminal :: "nat \<Rightarrow> world \<Rightarrow> world" where
  "destroyTerminal v s =
     (case view_of s v of None \<Rightarrow> s
      | Some w \<Rightarrow>
          (let s1 = set_view v (w\<lparr>resizeObserver := None\<rparr>) s;
               s2 = (case ptyProcess w of None \<Rightarrow> s1
                     | Some p \<Rightarrow> emit [Kill (Docked v) p] s1);
               s3 = (case terminal w of None \<Rightarrow> s2
                     | Some t \<Rightarrow> emit [Dispose (Docked v) (xt_id t)] s2)
           in set_view v (w\<lparr>resizeObserver := None, ptyProcess := None, terminal := None,
                            fitAddon := None\<rparr>) s3))"

text \<open>\<^verbatim>\<open>onOpen\<close> (lines 50 to 62), \<^verbatim>\<open>onClose\<close> (lines 85 to 87), \<^verbatim>\<open>sendClear\<close> (lines 80 to 83).\<close>

definition onOpen :: "nat \<Rightarrow> world \<Rightarrow> world" where
  "onOpen v s = snd (setTimeout (ViewInitialize v) 100 s)"

definition onClose :: "nat \<Rightarrow> world \<Rightarrow> world" where
  "onClose v s = destroyTerminal v s"

definition sendClear :: "nat \<Rightarrow> world \<Rightarrow> world" where
  "sendClear v s =
     (case view_of s v of None \<Rightarrow> s
      | Some w \<Rightarrow>
          (case ptyProcess w of None \<Rightarrow> s
           | Some p \<Rightarrow> emit [PtyWrite (Docked v) p clearCommand] s))"

subsection \<open>The host's workspace\<close>

text \<open>
  What the host does with the registered view type. \<^verbatim>\<open>leaf.setViewState\<close> closes the view
  the leaf shows, makes a new \<^verbatim>\<open>ClaudeTerminalView\<close> with the registered factory and opens
  it; \<^verbatim>\<open>detachLeavesOfType\<close> closes every view of the type and removes its leaf.
\<close>

definition setViewState :: "nat \<Rightarrow> world \<Rightarrow> world" where
  "setViewState l s =
     (let s1 = (case map_of (leaves s) l of None \<Rightarrow> s | Some v \<Rightarrow> onClose v s);
          v' = length (views s1)
      in onOpen v' (s1\<lparr>views := views s1 @ [newView], leaves := AList.update l v' (leaves s1)\<rparr>))"

definition detachLeavesOfType :: "world \<Rightarrow> world" where
  "detachLeavesOfType s = (foldl (\<lambda>w lv. onClose (snd lv) w) s (leaves s))\<lparr>leaves := []\<rparr>"

text \<open>
  \<^verbatim>\<open>openInSidebar\<close> (lines 297 to 312); the argument is what \<^verbatim>\<open>getRightLeaf(false)\<close>
  returns. \<^verbatim>\<open>undockToFloating\<close> (lines 314 to 320) and \<^verbatim>\<open>onunload\<close> (lines 281 to 287).
\<close>

definition openInSidebar :: "nat option \<Rightarrow> world \<Rightarrow> world" where
  "openInSidebar rightLeaf s =
     (let s1 = (if isFloatingVisible s then destroyFloatingTerminal (hideFloatingTerminal s) else s)
      in case rightLeaf of None \<Rightarrow> s1 | Some l \<Rightarrow> setViewState l s1)"

definition undockToFloating :: "world \<Rightarrow> world" where
  "undockToFloating s = showFloatingTerminal (detachLeavesOfType s)"

definition onunload :: "world \<Rightarrow> world" where
  "onunload s =
     (let s1 = destroyFloatingTerminal s;
          s2 = (case floatingContainer s1 of None \<Rightarrow> s1
                | Some c \<Rightarrow> s1\<lparr>floatingContainer := Some (c\<lparr>in_document := False\<rparr>)\<rparr>)
      in detachLeavesOfType s2)"

subsection \<open>The event loop\<close>

definition fireTimer :: "timer_callback \<Rightarrow> world \<Rightarrow> world" where
  "fireTimer cb s =
     (case cb of
        FloatDebounce \<Rightarrow> floatingDebounceFired s
      | FloatAutoLaunch \<Rightarrow> floatingAutoLaunchFired s
      | ViewInitialize v \<Rightarrow> initializeTerminal v s
      | ViewDebounce v \<Rightarrow> viewDebounceFired v s
      | ViewAutoLaunch v \<Rightarrow> viewAutoLaunchFired v s)"

definition runFrame :: "pty_env \<Rightarrow> frame_callback \<Rightarrow> world \<Rightarrow> world" where
  "runFrame env cb s =
     (case cb of
        FloatFrameOuter \<Rightarrow> requestAnimationFrame FloatFrameInner s
      | FloatFrameInner \<Rightarrow> floatingFrameInner env s
      | ViewFrameOuter v \<Rightarrow> requestAnimationFrame (ViewFrameInner v) s
      | ViewFrameInner v \<Rightarrow> viewFrameInner v env s)"

text \<open>
  The browser runs the oldest animation-frame callback. The timers that are due run in
  the order they came due; no timer callback of this program sets or clears a timer.
\<close>

definition animationFrame :: "pty_env \<Rightarrow> world \<Rightarrow> world" where
  "animationFrame env s =
     (case frames s of [] \<Rightarrow> s | cb # cbs \<Rightarrow> runFrame env cb (s\<lparr>frames := cbs\<rparr>))"

definition runDueTimers :: "world \<Rightarrow> world" where
  "runDueTimers s =
     foldl (\<lambda>w t. fireTimer (timer_cb t) w)
       (s\<lparr>timers := filter (\<lambda>t. \<not> due t \<le> now s) (timers s)\<rparr>)
       (filter (\<lambda>t. due t \<le> now s) (timers s))"

datatype event =
    LayoutReady
  | ToggleFloating
  | ShowFloating
  | HideFloating
  | ClickClose
  | ClickClear
  | OpenInSidebar "nat option"
  | UndockToFloating
  | ViewClear nat
  | ResizeFloating "nat \<times> nat"
  | ResizeView nat "nat \<times> nat"
  | AnimationFrame pty_env
  | Advance nat
  | Timeout
  | SetShellPath string
  | SetAutoLaunch bool
  | SetFontSize nat
  | Unload

definition resizeFloating :: "nat \<times> nat \<Rightarrow> world \<Rightarrow> world" where
  "resizeFloating box s =
     (let s1 = s\<lparr>floatBox := box\<rparr>
      in case floatingResizeObserver s1 of None \<Rightarrow> s1 | Some ob \<Rightarrow> floatingResizeCallback s1)"

definition resizeView :: "nat \<Rightarrow> nat \<times> nat \<Rightarrow> world \<Rightarrow> world" where
  "resizeView v box s =
     (case view_of s v of None \<Rightarrow> s
      | Some w \<Rightarrow>
          (let s1 = set_view v (w\<lparr>viewBox := box\<rparr>) s
           in case resizeObserver w of None \<Rightarrow> s1 | Some ob \<Rightarrow> viewResizeCallback v s1))"

fun step :: "event \<Rightarrow> world \<Rightarrow> world" where
  "step LayoutReady s = createFloatingContainer s"
| "step ToggleFloating s = toggleFloatingTerminal s"
| "step ShowFloating s = showFloatingTerminal s"
| "step HideFloating s = hideFloatingTerminal s"
| "step ClickClose s = closeButtonClicked s"
| "step ClickClear s = clearButtonClicked s"
| "step (OpenInSidebar rl) s = openInSidebar rl s"
| "step UndockToFloating s = undockToFloating s"
| "step (ViewClear v) s = sendClear v s"
| "step (ResizeFloating box) s = resizeFloating box s"
| "step (ResizeView v box) s = resizeView v box s"
| "step (AnimationFrame env) s = animationFrame env s"
| "step (Advance d) s = s\<lparr>now := now s + d\<rparr>"
| "step Timeout s = runDueTimers s"
| "step (SetShellPath p) s = s\<lparr>settings := (settings s)\<lparr>shellPath := p\<rparr>\<rparr>"
| "step (SetAutoLaunch b) s = s\<lparr>settings := (settings s)\<lparr>autoLaunchClaude := b\<rparr>\<rparr>"
| "step (SetFontSize n) s = s\<lparr>settings := (settings s)\<lparr>fontSize := n\<rparr>\<rparr>"
| "step Unload s = onunload s"

definition run :: "event list \<Rightarrow> world \<Rightarrow> world" where
  "run es s = foldl (\<lambda>w e. step e w) s es"

text \<open>The plugin after \<^verbatim>\<open>onload\<close>, before the host's layout is ready.\<close>

definition init :: "host_env \<Rightarrow> ClaudeTerminalSettings \<Rightarrow> world" where
  "init h st =
     \<lparr>host = h, settings = st, floatingContainer = None, floatingTerminal = None,
      floatingFitAddon = None, floatingPtyProcess = None, floatingResizeObserver = None,
      isFloatingVisible = False, floatingFitDebounceTimer = None, floatBox = (80, 24),
      views = [], leaves = [], frames = [], timers = [], now = 0, nextId = 1, log = []\<rparr>"

definition DEFAULT_SETTINGS :: "string \<Rightarrow> ClaudeTerminalSettings" where
  "DEFAULT_SETTINGS sh =
     \<lparr>shellPath = sh, autoLaunchClaude = True, fontSize = 13, floatingWidth = 500,
      floatingHeight = 350\<rparr>"

subsection \<open>Invariants and observations\<close>

text \<open>
  The fields of the plugin that belong to the floating terminal, and the host's views.
\<close>

definition floating_part ::
  "world \<Rightarrow> container option \<times> xterm option \<times> handle option \<times> handle option \<times>
     handle option \<times> bool \<times> handle option \<times> (nat \<times> nat)" where
  "floating_part s = (floatingContainer s, floatingTerminal s, floatingFitAddon s,
     floatingPtyProcess s, floatingResizeObserver s, isFloatingVisible s,
     floatingFitDebounceTimer s, floatBox s)"

definition docked_part :: "world \<Rightarrow> view list \<times> (nat \<times> nat) list" where
  "docked_part s = (views s, leaves s)"

text \<open>
  The floating terminal is well formed: without a container nothing is visible and no
  terminal exists, a process handle is held only together with a terminal, the terminal
  and the fit addon are there together, and the handles of the process and of the
  terminal are older than the handle counter.
\<close>

definition floating_ok :: "world \<Rightarrow> bool" where
  "floating_ok s \<longleftrightarrow>
     (floatingContainer s = None \<longrightarrow> \<not> isFloatingVisible s \<and> floatingTerminal s = None) \<and>
     (floatingTerminal s = None \<longrightarrow> floatingPtyProcess s = None) \<and>
     (floatingTerminal s = None \<longleftrightarrow> floatingFitAddon s = None) \<and>
     (\<forall>p. floatingPtyProcess s = Some p \<longrightarrow> p < nextId s) \<and>
     (\<forall>t. floatingTerminal s = Some t \<longrightarrow> xt_id t < nextId s)"

text \<open>
  Every view holds a process handle only together with a terminal, and its terminal and
  fit addon are there together. A destroyed view holds nothing.
\<close>

definition view_good :: "view \<Rightarrow> bool" where
  "view_good w \<longleftrightarrow>
     (terminal w = None \<longrightarrow> ptyProcess w = None) \<and> (terminal w = None \<longleftrightarrow> fitAddon w = None)"

definition views_ok :: "world \<Rightarrow> bool" where
  "views_ok s \<longleftrightarrow> (\<forall>w \<in> set (views s). view_good w)"

















text \<open>
  What a log says: the spawn calls, what a destroy emits, and the fits, the process
  resizes and the injected launch commands of a Session, each with its time.
\<close>

fun isSpawn :: "effect \<Rightarrow> bool" where
  "isSpawn (Spawn ow f as opts) = True"
| "isSpawn e = False"

definition spawnsOf :: "world \<Rightarrow> effect list" where
  "spawnsOf s = filter isSpawn (map snd (log s))"

definition destroyEffects :: "owner \<Rightarrow> handle option \<Rightarrow> xterm option \<Rightarrow> effect list" where
  "destroyEffects ow pty t =
     (case pty of None \<Rightarrow> [] | Some p \<Rightarrow> [Kill ow p]) @
     (case t of None \<Rightarrow> [] | Some x \<Rightarrow> [Dispose ow (xt_id x)])"










subsection \<open>A concrete host, for the examples\<close>

definition demo_host :: host_env where
  "demo_host = \<lparr>basePath = ''/vault'', processEnv = [(''TERM'', ''dumb''), (''HOME'', ''/root'')]\<rparr>"

definition demo_init :: world where
  "demo_init = init demo_host (DEFAULT_SETTINGS ''/bin/zsh'')"

definition spawn_ok :: pty_env where
  "spawn_ok = \<lparr>requireLocal = None, requireGlobal = None, spawnThrows = None\<rparr>"

definition spawn_enoent :: pty_env where
  "spawn_enoent = \<lparr>requireLocal = None, requireGlobal = None,
     spawnThrows = Some ''Error: spawn /bin/zsh ENOENT''\<rparr>"





definition c3_floating_trace :: "event list" where
  "c3_floating_trace = [LayoutReady, ShowFloating, AnimationFrame spawn_ok, AnimationFrame spawn_enoent]"

definition c3_docked_trace :: "event list" where
  "c3_docked_trace = [LayoutReady, OpenInSidebar (Some 0), Advance 100, Timeout,
     AnimationFrame spawn_ok, AnimationFrame spawn_enoent]"

definition c5_trace :: "event list" where
  "c5_trace = [LayoutReady, ShowFloating, AnimationFrame spawn_ok, AnimationFrame spawn_ok,
     ResizeFloating (100, 30), ClickClose]"

definition c6_trace :: "event list" where
  "c6_trace = [LayoutReady, ShowFloating, AnimationFrame spawn_ok, AnimationFrame spawn_ok,
     OpenInSidebar (Some 0), Advance 100, Timeout, AnimationFrame spawn_ok,
     AnimationFrame spawn_ok, OpenInSidebar (Some 1), UndockToFloating, ClickClose]"








definition c10_trace :: "event list" where
  "c10_trace = [ShowFloating, ToggleFloating, HideFloating, OpenInSidebar (Some 0), Advance 100,
     Timeout, AnimationFrame spawn_ok, AnimationFrame spawn_ok, UndockToFloating]"

section \<open>Frame lemmas and invariants\<close>

subsection \<open>The docked terminal leaves the floating fields alone\<close>

lemmas runtime_defs = emit_def setTimeout_def clearTimeout_def requestAnimationFrame_def
  set_view_def

lemma fp_viewFit: "floating_part (viewFit v s) = floating_part s"
  by (simp add: viewFit_def floating_part_def runtime_defs split: option.splits prod.splits)
lemma fp_viewScroll: "floating_part (viewScrollToBottom v s) = floating_part s"
  by (simp add: viewScrollToBottom_def floating_part_def runtime_defs split: option.splits)
lemma fp_viewFocus: "floating_part (viewFocus v s) = floating_part s"
  by (simp add: viewFocus_def floating_part_def runtime_defs split: option.splits)
lemma fp_viewCatch: "floating_part (viewCatch v e s) = floating_part s"
  by (simp add: viewCatch_def floating_part_def runtime_defs Let_def split: option.splits)
lemma fp_startPty: "floating_part (startPty v env s) = floating_part s"
  by (simp add: startPty_def fp_viewCatch Let_def split: option.splits)
     (simp add: floating_part_def runtime_defs)
lemma fp_viewResizeCallback: "floating_part (viewResizeCallback v s) = floating_part s"
  by (simp add: viewResizeCallback_def floating_part_def runtime_defs Let_def split: option.splits prod.splits)
lemma fp_viewDebounceFired: "floating_part (viewDebounceFired v s) = floating_part s"
  by (simp add: viewDebounceFired_def fp_viewFit fp_viewScroll split: option.splits)
lemma fp_viewAutoLaunchFired: "floating_part (viewAutoLaunchFired v s) = floating_part s"
  by (simp add: viewAutoLaunchFired_def floating_part_def runtime_defs split: option.splits)
lemma fp_initializeTerminal: "floating_part (initializeTerminal v s) = floating_part s"
  by (simp add: initializeTerminal_def floating_part_def runtime_defs split: option.splits)
lemma fp_viewFrameInner: "floating_part (viewFrameInner v env s) = floating_part s"
  by (simp add: viewFrameInner_def fp_viewFit fp_viewFocus fp_startPty split: option.splits)
lemma fp_destroyTerminal: "floating_part (destroyTerminal v s) = floating_part s"
  by (simp add: destroyTerminal_def floating_part_def runtime_defs Let_def split: option.splits)
lemma fp_onOpen: "floating_part (onOpen v s) = floating_part s"
  by (simp add: onOpen_def floating_part_def runtime_defs)
lemma fp_onClose: "floating_part (onClose v s) = floating_part s"
  by (simp add: onClose_def fp_destroyTerminal)
lemma fp_sendClear: "floating_part (sendClear v s) = floating_part s"
  by (simp add: sendClear_def floating_part_def runtime_defs split: option.splits)
lemma fp_setViewState: "floating_part (setViewState l s) = floating_part s"
  by (simp add: setViewState_def fp_onOpen Let_def split: option.splits)
     (simp add: floating_part_def fp_onClose[unfolded floating_part_def])
lemma fp_detach_fold: "floating_part (foldl (\<lambda>w lv. onClose (snd lv) w) s xs) = floating_part s"
  by (induction xs arbitrary: s) (simp_all add: fp_onClose)
lemma fp_detachLeavesOfType: "floating_part (detachLeavesOfType s) = floating_part s"
  using fp_detach_fold[of s "leaves s"] by (simp add: detachLeavesOfType_def floating_part_def)
lemma fp_resizeView: "floating_part (resizeView v box s) = floating_part s"
  by (simp add: resizeView_def fp_viewResizeCallback Let_def split: option.splits)
     (simp add: floating_part_def runtime_defs)

lemma floating_ok_frame:
  "floating_part s' = floating_part s \<Longrightarrow> nextId s \<le> nextId s' \<Longrightarrow> floating_ok s \<Longrightarrow> floating_ok s'"
  by (auto simp: floating_ok_def floating_part_def)

subsection \<open>The handle counter never decreases\<close>

lemma nx_viewFit [simp]: "nextId (viewFit v s) = nextId s"
  by (simp add: viewFit_def runtime_defs split: option.splits prod.splits)
lemma nx_viewScroll [simp]: "nextId (viewScrollToBottom v s) = nextId s"
  by (simp add: viewScrollToBottom_def runtime_defs split: option.splits)
lemma nx_viewFocus [simp]: "nextId (viewFocus v s) = nextId s"
  by (simp add: viewFocus_def runtime_defs split: option.splits)
lemma nx_viewCatch [simp]: "nextId (viewCatch v e s) = nextId s"
  by (simp add: viewCatch_def runtime_defs Let_def split: option.splits)
lemma nx_startPty: "nextId s \<le> nextId (startPty v env s)"
  by (simp add: startPty_def Let_def runtime_defs split: option.splits)
lemma nx_viewResizeCallback: "nextId s \<le> nextId (viewResizeCallback v s)"
  by (simp add: viewResizeCallback_def runtime_defs Let_def split: option.splits prod.splits)
lemma nx_viewDebounceFired [simp]: "nextId (viewDebounceFired v s) = nextId s"
  by (simp add: viewDebounceFired_def split: option.splits)
lemma nx_viewAutoLaunchFired [simp]: "nextId (viewAutoLaunchFired v s) = nextId s"
  by (simp add: viewAutoLaunchFired_def runtime_defs split: option.splits)
lemma nx_initializeTerminal: "nextId s \<le> nextId (initializeTerminal v s)"
  by (simp add: initializeTerminal_def runtime_defs split: option.splits)
lemma nx_viewFrameInner: "nextId s \<le> nextId (viewFrameInner v env s)"
  using nx_startPty[of "viewFit v s" v env] by (simp add: viewFrameInner_def split: option.splits)
lemma nx_destroyTerminal [simp]: "nextId (destroyTerminal v s) = nextId s"
  by (simp add: destroyTerminal_def runtime_defs Let_def split: option.splits)
lemma nx_onOpen: "nextId s \<le> nextId (onOpen v s)"
  by (simp add: onOpen_def runtime_defs)
lemma nx_onClose [simp]: "nextId (onClose v s) = nextId s"
  by (simp add: onClose_def)
lemma nx_sendClear [simp]: "nextId (sendClear v s) = nextId s"
  by (simp add: sendClear_def runtime_defs split: option.splits)
lemma nx_setViewState: "nextId s \<le> nextId (setViewState l s)"
  by (simp add: setViewState_def Let_def onOpen_def runtime_defs split: option.splits)
lemma nx_detach_fold [simp]: "nextId (foldl (\<lambda>w lv. onClose (snd lv) w) s xs) = nextId s"
  by (induction xs arbitrary: s) simp_all
lemma nx_detachLeavesOfType [simp]: "nextId (detachLeavesOfType s) = nextId s"
  by (simp add: detachLeavesOfType_def)
lemma nx_resizeView: "nextId s \<le> nextId (resizeView v box s)"
  using nx_viewResizeCallback[of "set_view v ((views s ! v)\<lparr>viewBox := box\<rparr>) s" v]
  by (simp add: resizeView_def Let_def view_of_def set_view_def split: option.splits)

lemma nx_floatingFit [simp]: "nextId (floatingFit s) = nextId s"
  by (simp add: floatingFit_def runtime_defs split: option.splits prod.splits)
lemma nx_floatingScroll [simp]: "nextId (floatingScrollToBottom s) = nextId s"
  by (simp add: floatingScrollToBottom_def runtime_defs split: option.splits)
lemma nx_floatingFocus [simp]: "nextId (floatingFocus s) = nextId s"
  by (simp add: floatingFocus_def runtime_defs split: option.splits)
lemma nx_floatingCatch [simp]: "nextId (floatingCatch e s) = nextId s"
  by (simp add: floatingCatch_def runtime_defs Let_def split: option.splits)

subsection \<open>Every operation keeps the floating terminal well formed\<close>

lemma ok_createFloatingContainer: "floating_ok s \<Longrightarrow> floating_ok (createFloatingContainer s)"
  by (simp add: floating_ok_def createFloatingContainer_def)
lemma fit_id: "fit ow box pty t = (t', es) \<Longrightarrow> xt_id t' = xt_id t"
  by (auto simp: fit_def split: if_splits)
lemma ok_floatingFit: "floating_ok s \<Longrightarrow> floating_ok (floatingFit s)"
  by (auto simp: floating_ok_def floatingFit_def runtime_defs dest: fit_id
        split: option.splits prod.splits)
lemma ok_floatingScroll: "floating_ok s \<Longrightarrow> floating_ok (floatingScrollToBottom s)"
  by (auto simp: floating_ok_def floatingScrollToBottom_def runtime_defs split: option.splits)
lemma ok_floatingFocus: "floating_ok s \<Longrightarrow> floating_ok (floatingFocus s)"
  by (auto simp: floating_ok_def floatingFocus_def runtime_defs split: option.splits)
lemma ok_floatingCatch: "floating_ok s \<Longrightarrow> floating_ok (floatingCatch e s)"
  by (auto simp: floating_ok_def floatingCatch_def runtime_defs Let_def split: option.splits)
lemma ok_emit: "floating_ok s \<Longrightarrow> floating_ok (emit es s)"
  by (auto simp: floating_ok_def runtime_defs)
lemma ok_startFloatingPty: "floating_ok s \<Longrightarrow> floating_ok (startFloatingPty env s)"
  by (auto simp: startFloatingPty_def Let_def ok_floatingCatch ok_emit split: option.splits)
     (auto simp: floating_ok_def runtime_defs)
lemma ok_floatingResizeCallback: "floating_ok s \<Longrightarrow> floating_ok (floatingResizeCallback s)"
  by (auto simp: floating_ok_def floatingResizeCallback_def runtime_defs Let_def split: option.splits prod.splits)
lemma ok_floatingDebounceFired: "floating_ok s \<Longrightarrow> floating_ok (floatingDebounceFired s)"
  by (simp add: floatingDebounceFired_def ok_floatingFit ok_floatingScroll)
lemma ok_floatingAutoLaunchFired: "floating_ok s \<Longrightarrow> floating_ok (floatingAutoLaunchFired s)"
  by (simp add: floatingAutoLaunchFired_def ok_emit split: option.splits)
lemma ok_initializeFloatingTerminal: "floating_ok s \<Longrightarrow> floating_ok (initializeFloatingTerminal s)"
  by (auto simp: floating_ok_def initializeFloatingTerminal_def newTerminal_def runtime_defs
        split: option.splits)
lemma ok_floatingFrameInner: "floating_ok s \<Longrightarrow> floating_ok (floatingFrameInner env s)"
  by (simp add: floatingFrameInner_def ok_floatingFit ok_floatingFocus ok_startFloatingPty)
lemma ok_destroyFloatingTerminal: "floating_ok s \<Longrightarrow> floating_ok (destroyFloatingTerminal s)"
  by (auto simp: floating_ok_def destroyFloatingTerminal_def runtime_defs Let_def split: option.splits)
lemma ok_hideFloatingTerminal: "floating_ok s \<Longrightarrow> floating_ok (hideFloatingTerminal s)"
  by (auto simp: floating_ok_def hideFloatingTerminal_def split: option.splits)
lemma ok_show_pre: "floating_ok s \<Longrightarrow> floatingContainer s = Some c \<Longrightarrow>
   floating_ok (s\<lparr>floatingContainer := Some c', isFloatingVisible := b\<rparr>)"
  by (auto simp: floating_ok_def)
lemma ok_showFloatingTerminal: "floating_ok s \<Longrightarrow> floating_ok (showFloatingTerminal s)"
  by (auto simp: showFloatingTerminal_def Let_def ok_show_pre ok_initializeFloatingTerminal
        ok_floatingFocus ok_floatingScroll ok_floatingFit split: option.splits)
lemma ok_toggleFloatingTerminal: "floating_ok s \<Longrightarrow> floating_ok (toggleFloatingTerminal s)"
  by (simp add: toggleFloatingTerminal_def ok_showFloatingTerminal ok_hideFloatingTerminal)
lemma ok_closeButtonClicked: "floating_ok s \<Longrightarrow> floating_ok (closeButtonClicked s)"
  by (simp add: closeButtonClicked_def ok_destroyFloatingTerminal ok_hideFloatingTerminal)
lemma ok_clearButtonClicked: "floating_ok s \<Longrightarrow> floating_ok (clearButtonClicked s)"
  by (simp add: clearButtonClicked_def ok_emit split: option.splits)
lemma ok_resizeFloating: "floating_ok s \<Longrightarrow> floating_ok (resizeFloating box s)"
proof -
  assume a: "floating_ok s"
  have "floating_ok (s\<lparr>floatBox := box\<rparr>)" using a by (simp add: floating_ok_def)
  then show ?thesis by (simp add: resizeFloating_def Let_def ok_floatingResizeCallback split: option.splits)
qed

lemma ok_setViewState: "floating_ok s \<Longrightarrow> floating_ok (setViewState l s)"
  by (rule floating_ok_frame[OF fp_setViewState nx_setViewState])
lemma ok_detachLeavesOfType: "floating_ok s \<Longrightarrow> floating_ok (detachLeavesOfType s)"
  by (rule floating_ok_frame[OF fp_detachLeavesOfType]) simp_all
lemma ok_openInSidebar: "floating_ok s \<Longrightarrow> floating_ok (openInSidebar rl s)"
  by (simp add: openInSidebar_def Let_def ok_setViewState ok_destroyFloatingTerminal
        ok_hideFloatingTerminal split: option.splits)
lemma ok_undockToFloating: "floating_ok s \<Longrightarrow> floating_ok (undockToFloating s)"
  by (simp add: undockToFloating_def ok_showFloatingTerminal ok_detachLeavesOfType)
lemma ok_onunload: "floating_ok s \<Longrightarrow> floating_ok (onunload s)"
proof -
  assume "floating_ok s"
  then have a: "floating_ok (destroyFloatingTerminal s)" by (rule ok_destroyFloatingTerminal)
  have "floating_ok (case floatingContainer (destroyFloatingTerminal s) of None \<Rightarrow> destroyFloatingTerminal s
     | Some c \<Rightarrow> (destroyFloatingTerminal s)\<lparr>floatingContainer := Some (c\<lparr>in_document := False\<rparr>)\<rparr>)"
    using a by (auto simp: floating_ok_def split: option.splits)
  then show ?thesis by (simp add: onunload_def Let_def ok_detachLeavesOfType)
qed
lemma ok_fireTimer: "floating_ok s \<Longrightarrow> floating_ok (fireTimer cb s)"
  by (cases cb)
     (simp_all add: fireTimer_def ok_floatingDebounceFired ok_floatingAutoLaunchFired
        floating_ok_frame[OF fp_initializeTerminal nx_initializeTerminal]
        floating_ok_frame[OF fp_viewDebounceFired]
        floating_ok_frame[OF fp_viewAutoLaunchFired])
lemma ok_raf: "floating_ok s \<Longrightarrow> floating_ok (requestAnimationFrame cb s)"
  by (simp add: floating_ok_def runtime_defs)
lemma ok_runFrame: "floating_ok s \<Longrightarrow> floating_ok (runFrame env cb s)"
  by (cases cb)
     (simp_all add: runFrame_def ok_raf ok_floatingFrameInner
        floating_ok_frame[OF fp_viewFrameInner nx_viewFrameInner])
lemma ok_animationFrame: "floating_ok s \<Longrightarrow> floating_ok (animationFrame env s)"
proof -
  assume a: "floating_ok s"
  have "\<And>cbs. floating_ok (s\<lparr>frames := cbs\<rparr>)" using a by (simp add: floating_ok_def)
  then show ?thesis using a by (simp add: animationFrame_def ok_runFrame split: list.splits)
qed
lemma ok_fold_timers: "floating_ok s \<Longrightarrow> floating_ok (foldl (\<lambda>w t. fireTimer (timer_cb t) w) s ts)"
  by (induction ts arbitrary: s) (simp_all add: ok_fireTimer)
lemma ok_runDueTimers: "floating_ok s \<Longrightarrow> floating_ok (runDueTimers s)"
proof -
  assume a: "floating_ok s"
  have "\<And>ts. floating_ok (s\<lparr>timers := ts\<rparr>)" using a by (simp add: floating_ok_def)
  then show ?thesis by (simp add: runDueTimers_def ok_fold_timers)
qed
lemma ok_now: "floating_ok (s\<lparr>now := n\<rparr>) = floating_ok s"
  by (simp add: floating_ok_def)
lemma ok_settings: "floating_ok (s\<lparr>settings := x\<rparr>) = floating_ok s"
  by (simp add: floating_ok_def)
lemma ok_step: "floating_ok s \<Longrightarrow> floating_ok (step e s)"
  by (cases e)
     (simp_all add: ok_createFloatingContainer ok_toggleFloatingTerminal ok_showFloatingTerminal
       ok_hideFloatingTerminal ok_closeButtonClicked ok_clearButtonClicked ok_openInSidebar
       ok_undockToFloating ok_resizeFloating ok_animationFrame ok_runDueTimers ok_onunload
       ok_now ok_settings floating_ok_frame[OF fp_sendClear]
       floating_ok_frame[OF fp_resizeView nx_resizeView])
lemma ok_run: "floating_ok s \<Longrightarrow> floating_ok (run es s)"
  unfolding run_def by (induction es arbitrary: s) (simp_all add: ok_step)
lemma ok_init: "floating_ok (init h st)"
  by (simp add: floating_ok_def init_def)

subsection \<open>The floating terminal leaves the views alone\<close>

lemma dp_createFloatingContainer: "docked_part (createFloatingContainer s) = docked_part s"
  by (simp add: docked_part_def createFloatingContainer_def)
lemma dp_floatingFit: "docked_part (floatingFit s) = docked_part s"
  by (simp add: docked_part_def floatingFit_def runtime_defs split: option.splits prod.splits)
lemma dp_floatingScroll: "docked_part (floatingScrollToBottom s) = docked_part s"
  by (simp add: docked_part_def floatingScrollToBottom_def runtime_defs split: option.splits)
lemma dp_floatingFocus: "docked_part (floatingFocus s) = docked_part s"
  by (simp add: docked_part_def floatingFocus_def runtime_defs split: option.splits)
lemma dp_floatingCatch: "docked_part (floatingCatch e s) = docked_part s"
  by (simp add: docked_part_def floatingCatch_def runtime_defs Let_def split: option.splits)
lemma dp_startFloatingPty: "docked_part (startFloatingPty env s) = docked_part s"
  by (simp add: startFloatingPty_def dp_floatingCatch Let_def split: option.splits)
     (simp add: docked_part_def runtime_defs)
lemma dp_floatingResizeCallback: "docked_part (floatingResizeCallback s) = docked_part s"
  by (simp add: docked_part_def floatingResizeCallback_def runtime_defs Let_def split: option.splits prod.splits)
lemma dp_floatingDebounceFired: "docked_part (floatingDebounceFired s) = docked_part s"
  by (simp add: floatingDebounceFired_def dp_floatingFit dp_floatingScroll)
lemma dp_floatingAutoLaunchFired: "docked_part (floatingAutoLaunchFired s) = docked_part s"
  by (simp add: docked_part_def floatingAutoLaunchFired_def runtime_defs split: option.splits)
lemma dp_initializeFloatingTerminal: "docked_part (initializeFloatingTerminal s) = docked_part s"
  by (simp add: docked_part_def initializeFloatingTerminal_def runtime_defs split: option.splits)
lemma dp_floatingFrameInner: "docked_part (floatingFrameInner env s) = docked_part s"
  by (simp add: floatingFrameInner_def dp_floatingFit dp_floatingFocus dp_startFloatingPty)
lemma dp_destroyFloatingTerminal: "docked_part (destroyFloatingTerminal s) = docked_part s"
  by (simp add: docked_part_def destroyFloatingTerminal_def runtime_defs Let_def split: option.splits)
lemma dp_hideFloatingTerminal: "docked_part (hideFloatingTerminal s) = docked_part s"
  by (simp add: docked_part_def hideFloatingTerminal_def split: option.splits)
lemma dp_showFloatingTerminal: "docked_part (showFloatingTerminal s) = docked_part s"
  by (simp add: showFloatingTerminal_def Let_def dp_initializeFloatingTerminal dp_floatingFocus
        dp_floatingScroll dp_floatingFit split: option.splits)
     (simp add: docked_part_def)
lemma dp_toggleFloatingTerminal: "docked_part (toggleFloatingTerminal s) = docked_part s"
  by (simp add: toggleFloatingTerminal_def dp_showFloatingTerminal dp_hideFloatingTerminal)
lemma dp_closeButtonClicked: "docked_part (closeButtonClicked s) = docked_part s"
  by (simp add: closeButtonClicked_def dp_destroyFloatingTerminal dp_hideFloatingTerminal)
lemma dp_clearButtonClicked: "docked_part (clearButtonClicked s) = docked_part s"
  by (simp add: docked_part_def clearButtonClicked_def runtime_defs split: option.splits)
lemma dp_resizeFloating: "docked_part (resizeFloating box s) = docked_part s"
  by (simp add: resizeFloating_def Let_def dp_floatingResizeCallback split: option.splits)
     (simp add: docked_part_def)

lemma views_ok_frame: "docked_part s' = docked_part s \<Longrightarrow> views_ok s \<Longrightarrow> views_ok s'"
  by (simp add: views_ok_def docked_part_def)

lemma views_ok_nth: "views_ok s \<longleftrightarrow> (\<forall>i < length (views s). view_good (views s ! i))"
  by (simp add: views_ok_def all_set_conv_all_nth)

lemma views_ok_same: "views s' = views s \<Longrightarrow> views_ok s' = views_ok s"
  by (simp add: views_ok_def)

lemma view_of_in: "view_of s v = Some w \<Longrightarrow> w \<in> set (views s)"
  by (auto simp: view_of_def split: if_splits)

lemmas vk_defs = views_ok_nth view_of_def view_good_def nth_list_update runtime_defs

lemma vk_viewFit: "views_ok s \<Longrightarrow> views_ok (viewFit v s)"
  by (auto simp: vk_defs viewFit_def fit_def split: option.splits prod.splits if_splits)
lemma vw_viewScroll: "views (viewScrollToBottom v s) = views s"
  by (simp add: viewScrollToBottom_def runtime_defs split: option.splits)
lemma vw_viewFocus: "views (viewFocus v s) = views s"
  by (simp add: viewFocus_def runtime_defs split: option.splits)
lemma vw_viewCatch: "views (viewCatch v e s) = views s"
  by (simp add: viewCatch_def runtime_defs Let_def split: option.splits)
lemma vk_startPty: "views_ok s \<Longrightarrow> views_ok (startPty v env s)"
  by (auto simp: startPty_def Let_def views_ok_same[OF vw_viewCatch] split: option.splits)
     (auto simp: vk_defs split: if_splits)
lemma vk_viewResizeCallback: "views_ok s \<Longrightarrow> views_ok (viewResizeCallback v s)"
  by (auto simp: vk_defs viewResizeCallback_def Let_def split: option.splits prod.splits if_splits)
lemma vk_viewDebounceFired: "views_ok s \<Longrightarrow> views_ok (viewDebounceFired v s)"
  by (simp add: viewDebounceFired_def vk_viewFit views_ok_same[OF vw_viewScroll] split: option.splits)
lemma vw_viewAutoLaunchFired: "views (viewAutoLaunchFired v s) = views s"
  by (simp add: viewAutoLaunchFired_def runtime_defs split: option.splits)
lemma vk_initializeTerminal: "views_ok s \<Longrightarrow> views_ok (initializeTerminal v s)"
  by (auto simp: vk_defs initializeTerminal_def split: option.splits if_splits)
lemma vk_viewFrameInner: "views_ok s \<Longrightarrow> views_ok (viewFrameInner v env s)"
  by (simp add: viewFrameInner_def vk_viewFit vk_startPty views_ok_same[OF vw_viewFocus]
        split: option.splits)
lemma vk_destroyTerminal: "views_ok s \<Longrightarrow> views_ok (destroyTerminal v s)"
  by (auto simp: vk_defs destroyTerminal_def Let_def split: option.splits if_splits)
lemma vw_onOpen: "views (onOpen v s) = views s"
  by (simp add: onOpen_def runtime_defs)
lemma vw_sendClear: "views (sendClear v s) = views s"
  by (simp add: sendClear_def runtime_defs split: option.splits)
lemma vk_append: "views_ok s \<Longrightarrow> views_ok (s\<lparr>views := views s @ [newView], leaves := x\<rparr>)"
  by (auto simp: views_ok_def view_good_def newView_def)
lemma vk_setViewState: "views_ok s \<Longrightarrow> views_ok (setViewState l s)"
  by (simp add: setViewState_def Let_def views_ok_same[OF vw_onOpen] vk_append onClose_def
        vk_destroyTerminal split: option.splits)
lemma vk_detach_fold: "views_ok s \<Longrightarrow> views_ok (foldl (\<lambda>w lv. onClose (snd lv) w) s xs)"
  by (induction xs arbitrary: s) (simp_all add: onClose_def vk_destroyTerminal)
lemma vk_detachLeavesOfType: "views_ok s \<Longrightarrow> views_ok (detachLeavesOfType s)"
  using vk_detach_fold[of s "leaves s"] by (simp add: detachLeavesOfType_def views_ok_def)
lemma vk_resizeView: "views_ok s \<Longrightarrow> views_ok (resizeView v box s)"
proof (cases "view_of s v")
  case None then show "views_ok s \<Longrightarrow> ?thesis" by (simp add: resizeView_def)
next
  case (Some w)
  assume a: "views_ok s"
  have "views_ok (set_view v (w\<lparr>viewBox := box\<rparr>) s)"
    using a Some by (auto simp: vk_defs split: if_splits)
  then show ?thesis using Some by (simp add: resizeView_def Let_def vk_viewResizeCallback split: option.splits)
qed
lemma vk_openInSidebar: "views_ok s \<Longrightarrow> views_ok (openInSidebar rl s)"
  by (simp add: openInSidebar_def Let_def vk_setViewState
        views_ok_frame[OF dp_destroyFloatingTerminal] views_ok_frame[OF dp_hideFloatingTerminal]
        split: option.splits)
lemma vk_undockToFloating: "views_ok s \<Longrightarrow> views_ok (undockToFloating s)"
  by (simp add: undockToFloating_def views_ok_frame[OF dp_showFloatingTerminal] vk_detachLeavesOfType)
lemma vk_onunload: "views_ok s \<Longrightarrow> views_ok (onunload s)"
proof -
  assume "views_ok s"
  then have a: "views_ok (destroyFloatingTerminal s)" by (rule views_ok_frame[OF dp_destroyFloatingTerminal])
  have "views_ok (case floatingContainer (destroyFloatingTerminal s) of None \<Rightarrow> destroyFloatingTerminal s
     | Some c \<Rightarrow> (destroyFloatingTerminal s)\<lparr>floatingContainer := Some (c\<lparr>in_document := False\<rparr>)\<rparr>)"
    using a by (auto simp: views_ok_def split: option.splits)
  then show ?thesis by (simp add: onunload_def Let_def vk_detachLeavesOfType)
qed
lemma vk_fireTimer: "views_ok s \<Longrightarrow> views_ok (fireTimer cb s)"
  by (cases cb)
     (simp_all add: fireTimer_def views_ok_frame[OF dp_floatingDebounceFired]
        views_ok_frame[OF dp_floatingAutoLaunchFired] vk_initializeTerminal vk_viewDebounceFired
        views_ok_same[OF vw_viewAutoLaunchFired])
lemma vk_runFrame: "views_ok s \<Longrightarrow> views_ok (runFrame env cb s)"
  by (cases cb)
     (simp_all add: runFrame_def views_ok_frame[OF dp_floatingFrameInner] vk_viewFrameInner,
      simp_all add: views_ok_def runtime_defs)
lemma vk_animationFrame: "views_ok s \<Longrightarrow> views_ok (animationFrame env s)"
proof -
  assume a: "views_ok s"
  have "\<And>cbs. views_ok (s\<lparr>frames := cbs\<rparr>)" using a by (simp add: views_ok_def)
  then show ?thesis using a by (simp add: animationFrame_def vk_runFrame split: list.splits)
qed
lemma vk_fold_timers: "views_ok s \<Longrightarrow> views_ok (foldl (\<lambda>w t. fireTimer (timer_cb t) w) s ts)"
  by (induction ts arbitrary: s) (simp_all add: vk_fireTimer)
lemma vk_runDueTimers: "views_ok s \<Longrightarrow> views_ok (runDueTimers s)"
proof -
  assume a: "views_ok s"
  have "\<And>ts. views_ok (s\<lparr>timers := ts\<rparr>)" using a by (simp add: views_ok_def)
  then show ?thesis by (simp add: runDueTimers_def vk_fold_timers)
qed
lemma vk_now: "views_ok (s\<lparr>now := n\<rparr>) = views_ok s"
  by (simp add: views_ok_def)
lemma vk_settings: "views_ok (s\<lparr>settings := x\<rparr>) = views_ok s"
  by (simp add: views_ok_def)
lemma vk_step: "views_ok s \<Longrightarrow> views_ok (step e s)"
  by (cases e)
     (simp_all add: views_ok_frame[OF dp_createFloatingContainer]
       views_ok_frame[OF dp_toggleFloatingTerminal] views_ok_frame[OF dp_showFloatingTerminal]
       views_ok_frame[OF dp_hideFloatingTerminal] views_ok_frame[OF dp_closeButtonClicked]
       views_ok_frame[OF dp_clearButtonClicked] vk_openInSidebar vk_undockToFloating
       views_ok_frame[OF dp_resizeFloating] vk_animationFrame vk_runDueTimers vk_onunload
       vk_now vk_settings views_ok_same[OF vw_sendClear] vk_resizeView)
lemma vk_run: "views_ok s \<Longrightarrow> views_ok (run es s)"
  unfolding run_def by (induction es arbitrary: s) (simp_all add: vk_step)
lemma vk_init: "views_ok (init h st)"
  by (simp add: views_ok_def init_def)

section \<open>What the operations do\<close>

subsection \<open>Destroy in closed form\<close>

lemma destroy_float_alt:
  "destroyFloatingTerminal s =
     s\<lparr>floatingResizeObserver := None, floatingPtyProcess := None, floatingTerminal := None,
       floatingFitAddon := None,
       floatingContainer := map_option (\<lambda>c. c\<lparr>content := []\<rparr>) (floatingContainer s),
       log := log s @ map (Pair (now s))
                (destroyEffects Floating (floatingPtyProcess s) (floatingTerminal s))\<rparr>"
  by (cases "floatingPtyProcess s"; cases "floatingTerminal s"; cases "floatingContainer s")
     (simp_all add: destroyFloatingTerminal_def destroyEffects_def Let_def runtime_defs)
lemma destroy_float_twice:
  "destroyFloatingTerminal (destroyFloatingTerminal s) = destroyFloatingTerminal s"
  by (simp add: destroy_float_alt destroyEffects_def option.map_comp comp_def)
lemma destroy_float_init: "destroyFloatingTerminal (init h st) = init h st"
  by (simp add: destroy_float_alt destroyEffects_def init_def)

lemma destroy_view_alt:
  "view_of s v = Some w \<Longrightarrow>
   destroyTerminal v s =
     s\<lparr>views := (views s)[v := w\<lparr>resizeObserver := None, ptyProcess := None, terminal := None,
                                 fitAddon := None\<rparr>],
       log := log s @ map (Pair (now s)) (destroyEffects (Docked v) (ptyProcess w) (terminal w))\<rparr>"
  by (cases "ptyProcess w"; cases "terminal w")
     (simp_all add: destroyTerminal_def destroyEffects_def Let_def runtime_defs)
lemma destroy_view_none: "view_of s v = None \<Longrightarrow> destroyTerminal v s = s"
  by (simp add: destroyTerminal_def)
lemma destroy_view_twice:
  "destroyTerminal v (destroyTerminal v s) = destroyTerminal v s"
proof (cases "view_of s v")
  case None then show ?thesis by (simp add: destroy_view_none)
next
  case (Some w)
  let ?w = "w\<lparr>resizeObserver := None, ptyProcess := None, terminal := None, fitAddon := None\<rparr>"
  have 1: "view_of (destroyTerminal v s) v = Some ?w"
    using Some by (simp add: destroy_view_alt[OF Some] view_of_def split: if_splits)
  show ?thesis
    by (simp add: destroy_view_alt[OF 1]) (simp add: destroy_view_alt[OF Some] destroyEffects_def)
qed
lemma destroy_view_fresh:
  "view_of s v = Some newView \<Longrightarrow> destroyTerminal v s = s"
  by (simp add: destroy_view_alt destroyEffects_def)
     (simp add: view_of_def newView_def list_update_same_conv split: if_splits)

lemma destroy_float_fields:
  "floatingTerminal (destroyFloatingTerminal s) = None \<and>
   floatingPtyProcess (destroyFloatingTerminal s) = None \<and>
   floatingFitAddon (destroyFloatingTerminal s) = None \<and>
   floatingResizeObserver (destroyFloatingTerminal s) = None"
  by (simp add: destroy_float_alt)

lemma destroy_view_fields:
  "view_of s v = Some w \<Longrightarrow>
   view_of (destroyTerminal v s) v =
     Some (w\<lparr>resizeObserver := None, ptyProcess := None, terminal := None, fitAddon := None\<rparr>)"
  by (simp add: destroy_view_alt view_of_def split: if_splits)

lemma destroy_float_log:
  "log (destroyFloatingTerminal s) =
     log s @ map (Pair (now s)) (destroyEffects Floating (floatingPtyProcess s) (floatingTerminal s))"
  by (simp add: destroy_float_alt)

lemma destroy_view_log:
  "view_of s v = Some w \<Longrightarrow>
   log (destroyTerminal v s) =
     log s @ map (Pair (now s)) (destroyEffects (Docked v) (ptyProcess w) (terminal w))"
  by (simp add: destroy_view_alt)

lemma start_float_none: "floatingTerminal s = None \<Longrightarrow> startFloatingPty env s = s"
  by (simp add: startFloatingPty_def)
lemma start_view_none: "view_of s v = Some w \<Longrightarrow> terminal w = None \<Longrightarrow> startPty v env s = s"
  by (simp add: startPty_def)

lemma noop_without_container:
  "floatingContainer s = None \<Longrightarrow>
   showFloatingTerminal s = s \<and> hideFloatingTerminal s = s"
  by (simp add: showFloatingTerminal_def hideFloatingTerminal_def)

subsection \<open>Spawning, hiding, closing, docking\<close>




lemma spawnsOf_log: "log s' = log s \<Longrightarrow> spawnsOf s' = spawnsOf s"
  by (simp add: spawnsOf_def)






lemma destroy_float_timers:
  "timers (destroyFloatingTerminal s) = timers s \<and>
   floatingFitDebounceTimer (destroyFloatingTerminal s) = floatingFitDebounceTimer s \<and>
   frames (destroyFloatingTerminal s) = frames s"
  by (simp add: destroy_float_alt)

lemma debounce_after_destroy_float:
  "floatingDebounceFired (destroyFloatingTerminal s) = destroyFloatingTerminal s"
  by (simp add: floatingDebounceFired_def destroy_float_fields)

lemma frame_after_destroy_float:
  "floatingFrameInner env (destroyFloatingTerminal s) = destroyFloatingTerminal s"
  by (simp add: floatingFrameInner_def destroy_float_fields)

lemma destroy_view_timers:
  "timers (destroyTerminal v s) = timers s \<and> frames (destroyTerminal v s) = frames s"
  by (cases "view_of s v") (simp_all add: destroy_view_none destroy_view_alt)

lemma debounce_after_destroy_view:
  "viewDebounceFired v (destroyTerminal v s) = destroyTerminal v s"
  by (cases "view_of s v")
     (simp_all add: destroy_view_none viewDebounceFired_def destroy_view_fields)

lemma frame_after_destroy_view:
  "viewFrameInner v env (destroyTerminal v s) = destroyTerminal v s"
  by (cases "view_of s v")
     (simp_all add: destroy_view_none viewFrameInner_def destroy_view_fields)

lemma init_float_timers:
  "timers (initializeFloatingTerminal s) = timers s \<and>
   floatingFitDebounceTimer (initializeFloatingTerminal s) = floatingFitDebounceTimer s \<and>
   floatingPtyProcess (initializeFloatingTerminal s) = floatingPtyProcess s \<and>
   spawnsOf (initializeFloatingTerminal s) = spawnsOf s"
  by (simp add: initializeFloatingTerminal_def runtime_defs spawnsOf_def split: option.splits)

lemma init_view_timers:
  "timers (initializeTerminal v s) = timers s \<and> spawnsOf (initializeTerminal v s) = spawnsOf s"
  by (simp add: initializeTerminal_def runtime_defs spawnsOf_def split: option.splits)

lemma spawnsOf_destroy_float: "spawnsOf (destroyFloatingTerminal s) = spawnsOf s"
  by (simp add: spawnsOf_def destroy_float_log destroyEffects_def comp_def split: option.splits)

lemma spawnsOf_destroy_view: "spawnsOf (destroyTerminal v s) = spawnsOf s"
  by (cases "view_of s v")
     (simp_all add: destroy_view_none spawnsOf_def destroy_view_log destroyEffects_def comp_def
        split: option.splits)





















subsection \<open>Timers: the debounce and the launch\<close>

lemma set_insertTimer [simp]: "set (insertTimer t ts) = insert t (set ts)"
  by (induction ts) auto


































































lemma fit_listeners: "xt_resizeListeners (fst (fit ow box pty t)) = xt_resizeListeners t"
  by (simp add: fit_def)






























lemma filter_insertTimer_other: "\<not> P t \<Longrightarrow> filter P (insertTimer t ts) = filter P ts"
  by (induction ts) auto
































section \<open>The claims\<close>

text \<open>
  C6. In every state the plugin can reach, the floating terminal and every view hold a
  process handle only while they hold a terminal. No process is spawned when the terminal
  is null, and destroying kills the process that is held (the log gains its \<open>Kill\<close>) and
  nulls both handles.
\<close>

theorem process_handle_needs_surface:
  "(floatingTerminal (run es (init h st)) = None \<longrightarrow> floatingPtyProcess (run es (init h st)) = None) \<and>
   (\<forall>w \<in> set (views (run es (init h st))). terminal w = None \<longrightarrow> ptyProcess w = None) \<and>
   (floatingTerminal s = None \<longrightarrow> startFloatingPty env s = s) \<and>
   (\<forall>w. view_of s v = Some w \<and> terminal w = None \<longrightarrow> startPty v env s = s) \<and>
   floatingTerminal (destroyFloatingTerminal s) = None \<and>
   floatingPtyProcess (destroyFloatingTerminal s) = None \<and>
   log (destroyFloatingTerminal s) =
     log s @ map (Pair (now s)) (destroyEffects Floating (floatingPtyProcess s) (floatingTerminal s)) \<and>
   (\<forall>w. view_of s v = Some w \<longrightarrow>
      view_of (destroyTerminal v s) v =
        Some (w\<lparr>resizeObserver := None, ptyProcess := None, terminal := None, fitAddon := None\<rparr>) \<and>
      log (destroyTerminal v s) =
        log s @ map (Pair (now s)) (destroyEffects (Docked v) (ptyProcess w) (terminal w)))"
proof -
  have f: "floating_ok (run es (init h st))" by (rule ok_run[OF ok_init])
  have v: "views_ok (run es (init h st))" by (rule vk_run[OF vk_init])
  show ?thesis
    using f v
    by (simp add: floating_ok_def views_ok_def view_good_def start_float_none start_view_none
          destroy_float_log destroy_float_fields destroy_view_log destroy_view_fields)
qed

theorem process_handle_needs_surface_witness:
  "floatingTerminal (run c6_trace demo_init) = None \<and>
   floatingPtyProcess (run c6_trace demo_init) = None \<and>
   map terminal (views (run c6_trace demo_init)) = [None, None] \<and>
   map ptyProcess (views (run c6_trace demo_init)) = [None, None] \<and>
   floatingTerminal demo_init = None \<and> startFloatingPty spawn_ok demo_init = demo_init"
proof -
  note t = process_handle_needs_surface[of c6_trace demo_host "DEFAULT_SETTINGS ''/bin/zsh''"
      demo_init spawn_ok 0, unfolded demo_init_def[symmetric]]
  have a: "floatingTerminal (run c6_trace demo_init) = None" by code_simp
  have b: "floatingPtyProcess (run c6_trace demo_init) = None" using t a by blast
  have c: "map terminal (views (run c6_trace demo_init)) = [None, None]" by code_simp
  have d: "map ptyProcess (views (run c6_trace demo_init)) = [None, None]" by code_simp
  have e: "floatingTerminal demo_init = None" by code_simp
  have f: "startFloatingPty spawn_ok demo_init = demo_init" using t e by blast
  show ?thesis using a b c d e f by simp
qed

text \<open>
  C10. As long as the floating container has not been created, in every reachable state
  the visibility flag is false and no terminal and no process exist, and showing, hiding
  and toggling the floating terminal leave the whole state as it is.
\<close>

theorem floating_ops_before_layout_ready:
  "floatingContainer (run es (init h st)) = None \<longrightarrow>
     \<not> isFloatingVisible (run es (init h st)) \<and>
     floatingTerminal (run es (init h st)) = None \<and>
     floatingPtyProcess (run es (init h st)) = None \<and>
     step ShowFloating (run es (init h st)) = run es (init h st) \<and>
     step HideFloating (run es (init h st)) = run es (init h st) \<and>
     step ToggleFloating (run es (init h st)) = run es (init h st)"
proof -
  have f: "floating_ok (run es (init h st))" by (rule ok_run[OF ok_init])
  show ?thesis using f
    by (auto simp: floating_ok_def noop_without_container toggleFloatingTerminal_def)
qed

theorem floating_ops_before_layout_ready_witness:
  "floatingContainer (run c10_trace demo_init) = None \<and>
   \<not> isFloatingVisible (run c10_trace demo_init) \<and>
   step ShowFloating (run c10_trace demo_init) = run c10_trace demo_init \<and>
   step ToggleFloating (run c10_trace demo_init) = run c10_trace demo_init"
proof -
  note t = floating_ops_before_layout_ready[of c10_trace demo_host "DEFAULT_SETTINGS ''/bin/zsh''",
      unfolded demo_init_def[symmetric]]
  have a: "floatingContainer (run c10_trace demo_init) = None" by code_simp
  show ?thesis using t a by blast
qed

text \<open>
  C4. Destroying is idempotent, for the floating terminal and for a view: a second destroy
  changes nothing (it emits nothing either), after a destroy the terminal, the process
  handle, the fit addon and the resize observer are null, and destroying what was never
  constructed (the initial plugin, a new view) changes nothing.
\<close>

theorem destroy_idempotent:
  "destroyFloatingTerminal (destroyFloatingTerminal s) = destroyFloatingTerminal s \<and>
   floatingTerminal (destroyFloatingTerminal s) = None \<and>
   floatingPtyProcess (destroyFloatingTerminal s) = None \<and>
   floatingFitAddon (destroyFloatingTerminal s) = None \<and>
   floatingResizeObserver (destroyFloatingTerminal s) = None \<and>
   destroyFloatingTerminal (init h st) = init h st \<and>
   destroyTerminal v (destroyTerminal v s) = destroyTerminal v s \<and>
   (\<forall>w. view_of s v = Some w \<longrightarrow>
      (\<exists>w'. view_of (destroyTerminal v s) v = Some w' \<and> terminal w' = None \<and>
         ptyProcess w' = None \<and> fitAddon w' = None \<and> resizeObserver w' = None)) \<and>
   (view_of s v = Some newView \<longrightarrow> destroyTerminal v s = s)"
  by (simp add: destroy_float_twice destroy_float_fields destroy_float_init destroy_view_twice
        destroy_view_fields destroy_view_fresh)

theorem destroy_idempotent_witness:
  "view_of (run c6_trace demo_init) 0 \<noteq> None \<and>
   (\<exists>w'. view_of (destroyTerminal 0 (run c6_trace demo_init)) 0 = Some w' \<and> terminal w' = None \<and>
      ptyProcess w' = None \<and> fitAddon w' = None \<and> resizeObserver w' = None)"
proof -
  have "length (views (run c6_trace demo_init)) = 2" by code_simp
  then obtain w where w: "view_of (run c6_trace demo_init) 0 = Some w"
    by (simp add: view_of_def)
  show ?thesis using destroy_idempotent[of "run c6_trace demo_init" demo_host
      "DEFAULT_SETTINGS ''/bin/zsh''" 0] w by simp
qed



text \<open>
  C3. A spawn that throws is caught in both classes, the process handle stays null and the
  terminal stays. The view writes the red line and then the raw error text into its
  terminal. The floating terminal writes the red line only: the error text goes to the
  console and never reaches the terminal.
\<close>

theorem spawn_failure_report:
  "map snd (log (run c3_floating_trace demo_init)) =
     [Fit Floating 1,
      Spawn Floating ''/bin/zsh'' [] (spawnOptions demo_host (newTerminal 1 13)),
      ConsoleError ''Claude Terminal: Failed to start PTY'' ''Error: spawn /bin/zsh ENOENT'',
      TermWrite Floating 1 errorLine,
      Focus Floating 1] \<and>
   floatingTerminal (run c3_floating_trace demo_init) = Some (newTerminal 1 13) \<and>
   floatingPtyProcess (run c3_floating_trace demo_init) = None \<and>
   map snd (log (run c3_docked_trace demo_init)) =
     [Fit (Docked 0) 2,
      Spawn (Docked 0) ''/bin/zsh'' [] (spawnOptions demo_host (newTerminal 2 13)),
      ConsoleError ''Claude Terminal: Failed to start PTY'' ''Error: spawn /bin/zsh ENOENT'',
      TermWrite (Docked 0) 2 errorLine,
      TermWrite (Docked 0) 2 (rawErrorLine ''Error: spawn /bin/zsh ENOENT''),
      Focus (Docked 0) 2] \<and>
   map terminal (views (run c3_docked_trace demo_init)) = [Some (newTerminal 2 13)] \<and>
   map ptyProcess (views (run c3_docked_trace demo_init)) = [None]"
  by code_simp

text \<open>
  C5, as the code has it. Destroy cancels no timer: the pending timers and the stored timer
  handle are what they were. The debounce callback that fires after a destroy finds the
  handles null and changes nothing. Construct followed at once by Destroy sets no timer,
  spawns nothing and leaves no process handle, and the frame callback that is still
  queued changes nothing when it runs.
\<close>

theorem late_timer_is_harmless:
  "timers (destroyFloatingTerminal s) = timers s \<and>
   floatingFitDebounceTimer (destroyFloatingTerminal s) = floatingFitDebounceTimer s \<and>
   floatingDebounceFired (destroyFloatingTerminal s) = destroyFloatingTerminal s \<and>
   timers (destroyTerminal v s) = timers s \<and>
   viewDebounceFired v (destroyTerminal v s) = destroyTerminal v s \<and>
   timers (destroyFloatingTerminal (initializeFloatingTerminal s)) = timers s \<and>
   floatingPtyProcess (destroyFloatingTerminal (initializeFloatingTerminal s)) = None \<and>
   spawnsOf (destroyFloatingTerminal (initializeFloatingTerminal s)) = spawnsOf s \<and>
   floatingFrameInner env (destroyFloatingTerminal (initializeFloatingTerminal s)) =
     destroyFloatingTerminal (initializeFloatingTerminal s) \<and>
   timers (destroyTerminal v (initializeTerminal v s)) = timers s \<and>
   spawnsOf (destroyTerminal v (initializeTerminal v s)) = spawnsOf s \<and>
   viewFrameInner v env (destroyTerminal v (initializeTerminal v s)) =
     destroyTerminal v (initializeTerminal v s)"
  by (simp add: destroy_float_timers debounce_after_destroy_float frame_after_destroy_float
        destroy_view_timers debounce_after_destroy_view frame_after_destroy_view
        init_float_timers init_view_timers spawnsOf_destroy_float spawnsOf_destroy_view
        destroy_float_fields)

text \<open>
  C5 as stated fails: after a resize notification, closing the floating terminal leaves
  its debounce timer pending and the timer handle set.
\<close>

theorem destroy_leaves_timer_pending:
  "floatingTerminal (run c5_trace demo_init) = None \<and>
   floatingFitDebounceTimer (run c5_trace demo_init) = Some 6 \<and>
   timers (run c5_trace demo_init) =
     [\<lparr>timer_id = 6, due = 50, timer_cb = FloatDebounce\<rparr>,
      \<lparr>timer_id = 5, due = 300, timer_cb = FloatAutoLaunch\<rparr>]"
  by code_simp












end
